theory Spec2Isabelle
  imports Main
begin

section \<open>Strings\<close>

text \<open>
  A JavaScript string is a sequence of code units; the functions below only compare the
  first unit with the slash and cut it off, so a string is modelled as a \<open>char list\<close>.
  \<open>charAt\<close> returns the one-unit string at an index and the empty string out of range;
  \<open>substring\<close> with one argument drops the units before the start index.
\<close>

definition charAt :: "string \<Rightarrow> nat \<Rightarrow> string" where
  "charAt s i = (if i < length s then [s ! i] else [])"

definition substring :: "string \<Rightarrow> nat \<Rightarrow> string" where
  "substring s start = drop start s"

definition startsWith :: "string \<Rightarrow> string \<Rightarrow> bool" where
  "startsWith s t = (take (length t) s = t)"

section \<open>combineRouterPath\<close>

text \<open>
  The source assigns to \<open>result\<close>, \<open>prefix\<close> and \<open>path\<close>; each assignment is one binding
  of the \<open>let\<close> below, in the order of the source.
\<close>

definition combineRouterPath :: "string \<Rightarrow> string \<Rightarrow> string" where
  "combineRouterPath prefix path =
     (let result0 = [];
          result1 =
            (if prefix \<noteq> []
             then result0 @ (if charAt prefix 0 = ''/'' then substring prefix 1 else prefix)
             else result0);
          result2 = result1 @ ''/'';
          result3 =
            (if path \<noteq> []
             then result2 @ (if charAt path 0 = ''/'' then substring path 1 else path)
             else result2)
      in if charAt result3 0 \<noteq> ''/'' then ''/'' @ result3 else result3)"

text \<open>
  The path combiner as the specification words it: strip at most one leading slash from
  each argument, join the two with a slash, and prepend a slash when the joined string
  does not start with one.
\<close>

definition strip_one_leading_slash :: "string \<Rightarrow> string" where
  "strip_one_leading_slash s =
     (case s of [] \<Rightarrow> [] | c # cs \<Rightarrow> if c = CHR ''/'' then cs else c # cs)"

definition combine_as_specified :: "string \<Rightarrow> string \<Rightarrow> string" where
  "combine_as_specified prefix path =
     (let joined = strip_one_leading_slash prefix @ ''/'' @ strip_one_leading_slash path
      in if startsWith joined ''/'' then joined else ''/'' @ joined)"

section \<open>Combined routes and getPrefix\<close>

text \<open>
  \<open>RequestMethod\<close> is an enumeration declared outside this file; its members name the
  registration methods of the Express application. It is the type parameter \<open>'verb\<close>.
  The middleware functions of a route are values of the type parameter \<open>'mw\<close>.
\<close>

record ('verb, 'mw) CombineRoute =
  isClass :: bool
  requestMethod :: 'verb
  path :: string
  methodName :: string
  middlewares :: "'mw list"

text \<open>
  \<open>for (const i in routes)\<close> visits the indices of the array in ascending order and the
  function returns at the first entry whose \<open>isClass\<close> holds.
\<close>

fun getPrefix :: "('verb, 'mw) CombineRoute list \<Rightarrow> string" where
  "getPrefix [] = []"
| "getPrefix (r # rs) = (if isClass r then path r else getPrefix rs)"

section \<open>asyncHelper\<close>

text \<open>
  The promise returned by an asynchronous function settles in one of two ways or never:
  it is fulfilled, it is rejected with a reason, or it stays pending. Only the reason is
  observed by the code. Effects are threaded through a state \<open>'st\<close>: calling the
  continuation \<open>next\<close> with an argument transforms the state, and so does running the
  wrapped function, which receives \<open>next\<close> and may call it itself.
\<close>

datatype 'e promise = Fulfilled | Rejected 'e | Pending

type_synonym ('e, 'st) NextFunction = "'e \<Rightarrow> 'st \<Rightarrow> 'st"

type_synonym ('req, 'res, 'e, 'st) AsyncFunction =
  "'req \<Rightarrow> 'res \<Rightarrow> ('e, 'st) NextFunction \<Rightarrow> 'st \<Rightarrow> 'e promise \<times> 'st"

text \<open>
  \<open>promise.catch(onRejected)\<close>: the callback runs once, with the reason, when the promise
  is rejected, and never otherwise.
\<close>

definition promise_catch :: "'e promise \<Rightarrow> ('e \<Rightarrow> 'st \<Rightarrow> 'st) \<Rightarrow> 'st \<Rightarrow> 'st" where
  "promise_catch p onRejected s =
     (case p of Fulfilled \<Rightarrow> s | Rejected reason \<Rightarrow> onRejected reason s | Pending \<Rightarrow> s)"

definition asyncHelper ::
  "('req, 'res, 'e, 'st) AsyncFunction \<Rightarrow> 'req \<Rightarrow> 'res \<Rightarrow> ('e, 'st) NextFunction \<Rightarrow> 'st \<Rightarrow> 'st"
where
  "asyncHelper fn = (\<lambda>req res next s.
     case fn req res next s of (p, s') \<Rightarrow> promise_catch p next s')"

text \<open>A continuation that records its argument: the state is the list of the calls made.\<close>

definition recording_next :: "('e, 'e list) NextFunction" where
  "recording_next e calls = calls @ [e]"

section \<open>addRouterToExpress\<close>

text \<open>
  A handler passed to the application is either the function that \<open>combineMiddlewares\<close>
  returns or the closure that \<open>callInstance\<close> returns; the closure is represented by what
  it captures, the controller instance and the name of the method. The application is
  its routing table: \<open>app[requestMethod](routePath, ...handlers)\<close> appends one
  registration to it.
\<close>

datatype ('inst, 'mw) RequestHandler = ChainedMiddleware 'mw | CallInstance 'inst string

record ('verb, 'inst, 'mw) Registration =
  verb :: 'verb
  routePath :: string
  handlers :: "('inst, 'mw) RequestHandler list"

type_synonym ('verb, 'inst, 'mw) Application = "('verb, 'inst, 'mw) Registration list"

definition app_method ::
  "('verb, 'inst, 'mw) Application \<Rightarrow> 'verb \<Rightarrow> string \<Rightarrow> ('inst, 'mw) RequestHandler list
     \<Rightarrow> ('verb, 'inst, 'mw) Application"
where
  "app_method app method p hs = app @ [\<lparr>verb = method, routePath = p, handlers = hs\<rparr>]"

definition callInstance :: "'inst \<Rightarrow> ('verb, 'mw) CombineRoute \<Rightarrow> ('inst, 'mw) RequestHandler" where
  "callInstance instance route = CallInstance instance (methodName route)"

text \<open>
  What the closure of \<open>callInstance\<close> does when the framework invokes it: \<open>asyncHelper\<close>
  applied to the asynchronous function that awaits the method of the instance. The
  methods of the instances are the parameter \<open>method\<close>.
\<close>

definition invoke ::
  "('inst \<Rightarrow> string \<Rightarrow> ('req, 'res, 'e, 'st) AsyncFunction) \<Rightarrow> ('inst, 'mw) RequestHandler
     \<Rightarrow> ('req \<Rightarrow> 'res \<Rightarrow> ('e, 'st) NextFunction \<Rightarrow> 'st \<Rightarrow> 'st) option"
where
  "invoke method h =
     (case h of
        CallInstance instance name \<Rightarrow>
          Some (asyncHelper (\<lambda>req res next. method instance name req res next))
      | ChainedMiddleware m \<Rightarrow> None)"

text \<open>
  The body of \<open>combinedRoutes.forEach\<close>, one route after the other. \<open>combineMiddlewares\<close>
  is declared outside this file and is a parameter.
\<close>

fun addRouterToExpress_forEach ::
  "('mw list \<Rightarrow> 'mw) \<Rightarrow> string \<Rightarrow> 'inst \<Rightarrow> ('verb, 'mw) CombineRoute list
     \<Rightarrow> ('verb, 'inst, 'mw) Application \<Rightarrow> ('verb, 'inst, 'mw) Application"
where
  "addRouterToExpress_forEach combineMiddlewares prefix controllerInstance [] app = app"
| "addRouterToExpress_forEach combineMiddlewares prefix controllerInstance (route # rest) app =
     addRouterToExpress_forEach combineMiddlewares prefix controllerInstance rest
       (if \<not> isClass route then
          (let requestMethod = requestMethod route;
               routePath = combineRouterPath prefix (path route)
           in if length (middlewares route) > 0 then
                (let middleware = combineMiddlewares (middlewares route)
                 in app_method app requestMethod routePath
                      [ChainedMiddleware middleware, callInstance controllerInstance route])
              else
                app_method app requestMethod routePath
                  [callInstance controllerInstance route])
        else app)"

definition addRouterToExpress ::
  "('mw list \<Rightarrow> 'mw) \<Rightarrow> ('verb, 'inst, 'mw) Application \<Rightarrow> ('verb, 'mw) CombineRoute list
     \<Rightarrow> 'inst \<Rightarrow> ('verb, 'inst, 'mw) Application"
where
  "addRouterToExpress combineMiddlewares app combinedRoutes controllerInstance =
     (let prefix = getPrefix combinedRoutes
      in addRouterToExpress_forEach combineMiddlewares prefix controllerInstance
           combinedRoutes app)"

text \<open>
  The registration that the specification describes for one route that is not the class
  entry: the verb of the route, the combined path, and the chained middleware before the
  handler exactly when the route has a middleware.
\<close>

definition registration_of ::
  "('mw list \<Rightarrow> 'mw) \<Rightarrow> string \<Rightarrow> 'inst \<Rightarrow> ('verb, 'mw) CombineRoute
     \<Rightarrow> ('verb, 'inst, 'mw) Registration"
where
  "registration_of combineMiddlewares prefix instance route =
     \<lparr>verb = requestMethod route,
      routePath = combineRouterPath prefix (path route),
      handlers =
        (if middlewares route = [] then []
         else [ChainedMiddleware (combineMiddlewares (middlewares route))])
        @ [CallInstance instance (methodName route)]\<rparr>"

section \<open>Modules, controllers and the injector\<close>

text \<open>
  Classes (modules, controllers, providers) are values of the type parameter \<open>'cls\<close>.
  A property that may be absent is an \<open>option\<close>; \<open>x || []\<close> is \<open>or_empty\<close> and
  \<open>option?.field\<close> is \<open>optional\<close>.
\<close>

record 'cls ExpressAppOption =
  opt_imports :: "'cls list option"
  opt_controllers :: "'cls list option"
  opt_providers :: "'cls list option"

record 'cls ModuleMetadata =
  mod_controllers :: "'cls list option"
  mod_providers :: "'cls list option"

definition or_empty :: "'a list option \<Rightarrow> 'a list" where
  "or_empty x = (case x of None \<Rightarrow> [] | Some xs \<Rightarrow> xs)"

definition optional :: "('o \<Rightarrow> 'a option) \<Rightarrow> 'o option \<Rightarrow> 'a option" where
  "optional field option = (case option of None \<Rightarrow> None | Some opt \<Rightarrow> field opt)"

text \<open>
  The steps that can throw: the constructor of a module class, the read of a property of
  the metadata of a class that has none, and the injector, when it is created and when
  the controller is fetched from it. An exception leaves the entry point at once: a run
  that throws is \<open>Inl\<close> of its error, a run that completes is \<open>Inr\<close> of the state it
  leaves. The application accepts every registration: \<open>app[requestMethod]\<close> is a
  registration method for every member of \<open>RequestMethod\<close>.
\<close>

datatype error = ConstructorError | TypeError | ResolutionError

text \<open>
  An injector is created with a list of providers and is a new object at each creation:
  it carries its number in the order of creation. The instance that an injector holds for
  a class is identified by the number of the injector and the class.
\<close>

datatype 'cls Injector = Injector nat "'cls list"

datatype 'cls Instance = Instance nat 'cls

text \<open>
  What the entry point changes: the routing table of the application, the injectors
  created so far (each with the providers it was created with) and the module classes
  instantiated so far.
\<close>

record ('cls, 'verb, 'mw) World =
  app :: "('verb, 'cls Instance, 'mw) Application"
  injectors :: "'cls list list"
  moduleInstances :: "'cls list"

text \<open>
  What the file imports: whether the constructor of a module class throws, the metadata
  that \<open>Reflect.getMetadata('module', moduleClass)\<close> returns (\<open>None\<close> is \<open>undefined\<close>),
  whether \<open>ReflectiveInjector.resolveAndCreate\<close> and \<open>injector.get\<close> throw, the metadata
  store, \<open>combineRouteWithMiddleware\<close> and \<open>combineMiddlewares\<close>.
\<close>

record ('cls, 'verb, 'mw, 'sr, 'sm) Imported =
  constructorThrows :: "'cls \<Rightarrow> bool"
  getMetadata :: "'cls \<Rightarrow> 'cls ModuleMetadata option"
  resolveAndCreateThrows :: "'cls list \<Rightarrow> bool"
  getThrows :: "'cls list \<Rightarrow> 'cls \<Rightarrow> bool"
  store_routes :: 'sr
  store_middlewares :: 'sm
  combineRouteWithMiddleware :: "'cls \<Rightarrow> 'sr \<Rightarrow> 'sm \<Rightarrow> ('verb, 'mw) CombineRoute list"
  combineMiddlewares :: "'mw list \<Rightarrow> 'mw"

definition createModuleInstance ::
  "('cls, 'verb, 'mw, 'sr, 'sm) Imported \<Rightarrow> 'cls \<Rightarrow> ('cls, 'verb, 'mw) World
     \<Rightarrow> error + ('cls, 'verb, 'mw) World"
where
  "createModuleInstance E moduleClass w =
     (if constructorThrows E moduleClass then Inl ConstructorError
      else Inr (w\<lparr>moduleInstances := moduleInstances w @ [moduleClass]\<rparr>))"

definition resolveAndCreate ::
  "('cls, 'verb, 'mw, 'sr, 'sm) Imported \<Rightarrow> 'cls list \<Rightarrow> ('cls, 'verb, 'mw) World
     \<Rightarrow> error + ('cls Injector \<times> ('cls, 'verb, 'mw) World)"
where
  "resolveAndCreate E providers w =
     (if resolveAndCreateThrows E providers then Inl ResolutionError
      else Inr (Injector (length (injectors w)) providers,
                w\<lparr>injectors := injectors w @ [providers]\<rparr>))"

definition injector_get ::
  "('cls, 'verb, 'mw, 'sr, 'sm) Imported \<Rightarrow> 'cls Injector \<Rightarrow> 'cls \<Rightarrow> error + 'cls Instance"
where
  "injector_get E injector token =
     (case injector of Injector n providers \<Rightarrow>
        if getThrows E providers token then Inl ResolutionError else Inr (Instance n token))"

section \<open>addModuleToExpressApp\<close>

text \<open>The body of \<open>controllers.forEach\<close>, one controller after the other.\<close>

fun addModuleToExpressApp_forEach ::
  "('cls, 'verb, 'mw, 'sr, 'sm) Imported \<Rightarrow> 'cls list \<Rightarrow> 'cls list \<Rightarrow> 'cls list
     \<Rightarrow> ('cls, 'verb, 'mw) World \<Rightarrow> error + ('cls, 'verb, 'mw) World"
where
  "addModuleToExpressApp_forEach E providers globalProvidersClasses [] w = Inr w"
| "addModuleToExpressApp_forEach E providers globalProvidersClasses (controller # rest) w =
     (case resolveAndCreate E ([controller] @ providers @ globalProvidersClasses) w of
        Inl e \<Rightarrow> Inl e
      | Inr (injector, w1) \<Rightarrow>
          (case injector_get E injector controller of
             Inl e \<Rightarrow> Inl e
           | Inr controllerInstance \<Rightarrow>
               (let combinedRoutes =
                      combineRouteWithMiddleware E controller (store_routes E)
                        (store_middlewares E);
                    w2 = w1\<lparr>app := addRouterToExpress (combineMiddlewares E) (app w1)
                                     combinedRoutes controllerInstance\<rparr>
                in addModuleToExpressApp_forEach E providers globalProvidersClasses rest w2)))"

definition addModuleToExpressApp ::
  "('cls, 'verb, 'mw, 'sr, 'sm) Imported \<Rightarrow> 'cls ModuleMetadata option
     \<Rightarrow> 'cls ExpressAppOption option \<Rightarrow> ('cls, 'verb, 'mw) World
     \<Rightarrow> error + ('cls, 'verb, 'mw) World"
where
  "addModuleToExpressApp E module option w =
     (case module of
        None \<Rightarrow> Inl TypeError
      | Some m \<Rightarrow>
          (let controllers = or_empty (mod_controllers m);
               providers = or_empty (mod_providers m);
               globalProvidersClasses = or_empty (optional opt_providers option)
           in addModuleToExpressApp_forEach E providers globalProvidersClasses controllers w))"

section \<open>useExpressServer\<close>

text \<open>The body of \<open>moduleClasses.forEach\<close>, one module class after the other.\<close>

fun useExpressServer_forEach ::
  "('cls, 'verb, 'mw, 'sr, 'sm) Imported \<Rightarrow> 'cls ExpressAppOption option \<Rightarrow> 'cls list
     \<Rightarrow> ('cls, 'verb, 'mw) World \<Rightarrow> error + ('cls, 'verb, 'mw) World"
where
  "useExpressServer_forEach E option [] w = Inr w"
| "useExpressServer_forEach E option (moduleClass # rest) w =
     (case createModuleInstance E moduleClass w of
        Inl e \<Rightarrow> Inl e
      | Inr w1 \<Rightarrow>
          (let module = getMetadata E moduleClass
           in case addModuleToExpressApp E module option w1 of
                Inl e \<Rightarrow> Inl e
              | Inr w2 \<Rightarrow> useExpressServer_forEach E option rest w2))"

definition useExpressServer ::
  "('cls, 'verb, 'mw, 'sr, 'sm) Imported \<Rightarrow> 'cls ExpressAppOption option
     \<Rightarrow> ('cls, 'verb, 'mw) World \<Rightarrow> error + (bool \<times> ('cls, 'verb, 'mw) World)"
where
  "useExpressServer E option w =
     (let controllerClasses = or_empty (optional opt_controllers option);
          moduleClasses = or_empty (optional opt_imports option)
      in case useExpressServer_forEach E option moduleClasses w of
           Inl e \<Rightarrow> Inl e
         | Inr w1 \<Rightarrow>
             (if length controllerClasses > 0 then
                (case addModuleToExpressApp E
                        (Some \<lparr>mod_controllers = Some controllerClasses, mod_providers = None\<rparr>)
                        option w1 of
                   Inl e \<Rightarrow> Inl e
                 | Inr w2 \<Rightarrow> Inr (True, w2))
              else Inr (True, w1)))"

section \<open>What a run computes\<close>

text \<open>
  The functions below describe the outcome of a run without running it. They are used to
  state and prove the properties of the entry point.
\<close>

definition globalProviders :: "'cls ExpressAppOption option \<Rightarrow> 'cls list" where
  "globalProviders option = or_empty (optional opt_providers option)"

text \<open>
  A controller resolves when neither the creation of its injector nor the fetch of the
  controller from it throws.
\<close>

definition controller_resolves ::
  "('cls, 'verb, 'mw, 'sr, 'sm) Imported \<Rightarrow> 'cls list \<Rightarrow> 'cls list \<Rightarrow> 'cls \<Rightarrow> bool"
where
  "controller_resolves E providers globals c =
     (\<not> resolveAndCreateThrows E (c # providers @ globals)
      \<and> \<not> getThrows E (c # providers @ globals) c)"

text \<open>
  The registrations that the registrar makes for a controller whose instance is held by
  the injector of a given number.
\<close>

definition controller_registrations ::
  "('cls, 'verb, 'mw, 'sr, 'sm) Imported \<Rightarrow> nat \<times> 'cls
     \<Rightarrow> ('verb, 'cls Instance, 'mw) Registration list"
where
  "controller_registrations E nc =
     (case nc of (n, c) \<Rightarrow>
        addRouterToExpress (combineMiddlewares E) []
          (combineRouteWithMiddleware E c (store_routes E) (store_middlewares E))
          (Instance n c))"

definition module_controllers :: "('cls, 'verb, 'mw, 'sr, 'sm) Imported \<Rightarrow> 'cls \<Rightarrow> 'cls list" where
  "module_controllers E m =
     (case getMetadata E m of None \<Rightarrow> [] | Some md \<Rightarrow> or_empty (mod_controllers md))"

definition module_providers :: "('cls, 'verb, 'mw, 'sr, 'sm) Imported \<Rightarrow> 'cls \<Rightarrow> 'cls list" where
  "module_providers E m =
     (case getMetadata E m of None \<Rightarrow> [] | Some md \<Rightarrow> or_empty (mod_providers md))"

definition module_seeds ::
  "('cls, 'verb, 'mw, 'sr, 'sm) Imported \<Rightarrow> 'cls list \<Rightarrow> 'cls \<Rightarrow> 'cls list list"
where
  "module_seeds E globals m =
     map (\<lambda>c. c # module_providers E m @ globals) (module_controllers E m)"

text \<open>
  No step throws for a module class when its constructor returns, it has metadata, and
  each of its controllers resolves; no step of a run throws when this holds for each
  imported module and each controller of the option \<open>controllers\<close> resolves with the
  global providers alone.
\<close>

definition module_resolves ::
  "('cls, 'verb, 'mw, 'sr, 'sm) Imported \<Rightarrow> 'cls ExpressAppOption option \<Rightarrow> 'cls \<Rightarrow> bool"
where
  "module_resolves E option m =
     (\<not> constructorThrows E m \<and> getMetadata E m \<noteq> None
      \<and> list_all (controller_resolves E (module_providers E m) (globalProviders option))
            (module_controllers E m))"

definition no_step_throws ::
  "('cls, 'verb, 'mw, 'sr, 'sm) Imported \<Rightarrow> 'cls ExpressAppOption option \<Rightarrow> bool"
where
  "no_step_throws E option =
     (list_all (module_resolves E option) (or_empty (optional opt_imports option))
      \<and> list_all (controller_resolves E [] (globalProviders option))
            (or_empty (optional opt_controllers option)))"

definition server_controllers ::
  "('cls, 'verb, 'mw, 'sr, 'sm) Imported \<Rightarrow> 'cls ExpressAppOption option \<Rightarrow> 'cls list"
where
  "server_controllers E option =
     concat (map (module_controllers E) (or_empty (optional opt_imports option)))
     @ or_empty (optional opt_controllers option)"

text \<open>The verb and the path of a registration.\<close>

definition route_key :: "('verb, 'inst, 'mw) Registration \<Rightarrow> 'verb \<times> string" where
  "route_key r = (verb r, routePath r)"

text \<open>
  The verbs and paths that the routes of a controller declare, in the order of the routes,
  the class entry left out; and those of all the controllers of a run, the controllers of
  the imported modules first, then the controllers of the option \<open>controllers\<close>.
\<close>

definition controller_keys ::
  "('cls, 'verb, 'mw, 'sr, 'sm) Imported \<Rightarrow> 'cls \<Rightarrow> ('verb \<times> string) list"
where
  "controller_keys E c =
     (let rs = combineRouteWithMiddleware E c (store_routes E) (store_middlewares E)
      in map (\<lambda>r. (requestMethod r, combineRouterPath (getPrefix rs) (path r)))
           (filter (\<lambda>r. \<not> isClass r) rs))"

definition registered_keys ::
  "('cls, 'verb, 'mw, 'sr, 'sm) Imported \<Rightarrow> 'cls ExpressAppOption option
     \<Rightarrow> ('verb \<times> string) list"
where
  "registered_keys E option = concat (map (controller_keys E) (server_controllers E option))"

section \<open>An example\<close>

text \<open>
  One module with one controller under the prefix \<open>/users\<close>, with a route without
  middleware and a route with two; one controller outside any module, without a class
  entry; one global provider. An injector fails to return a class that is not among its
  providers, and \<open>combineMiddlewares\<close> is the concatenation of the names.
\<close>

definition demo_routes :: "string \<Rightarrow> (string, string) CombineRoute list" where
  "demo_routes c =
     (if c = ''UserController'' then
        [\<lparr>isClass = True, requestMethod = ''get'', path = ''/users'', methodName = [],
          middlewares = []\<rparr>,
         \<lparr>isClass = False, requestMethod = ''get'', path = ''/:id'', methodName = ''findOne'',
          middlewares = []\<rparr>,
         \<lparr>isClass = False, requestMethod = ''post'', path = [], methodName = ''create'',
          middlewares = [''auth'', ''audit'']\<rparr>]
      else if c = ''HealthController'' then
        [\<lparr>isClass = False, requestMethod = ''get'', path = ''/health'', methodName = ''check'',
          middlewares = []\<rparr>]
      else [])"

definition demo_imported :: "(string, string, string, unit, unit) Imported" where
  "demo_imported =
     \<lparr>constructorThrows = (\<lambda>m. False),
      getMetadata = (\<lambda>m. if m = ''UserModule''
                          then Some \<lparr>mod_controllers = Some [''UserController''],
                                     mod_providers = Some [''UserService'']\<rparr>
                          else None),
      resolveAndCreateThrows = (\<lambda>providers. False),
      getThrows = (\<lambda>providers token. token \<notin> set providers),
      store_routes = (),
      store_middlewares = (),
      combineRouteWithMiddleware = (\<lambda>c routes mws. demo_routes c),
      combineMiddlewares = concat\<rparr>"

definition demo_option :: "string ExpressAppOption option" where
  "demo_option =
     Some \<lparr>opt_imports = Some [''UserModule''], opt_controllers = Some [''HealthController''],
           opt_providers = Some [''Logger'']\<rparr>"

definition demo_module :: "string ModuleMetadata" where
  "demo_module = \<lparr>mod_controllers = Some [''UserController''],
                   mod_providers = Some [''UserService'']\<rparr>"

definition demo_world :: "(string, string, string) World" where
  "demo_world = \<lparr>app = [], injectors = [], moduleInstances = []\<rparr>"

text \<open>
  The state after the module alone, after one run of the entry point, and after a second
  run on the state the first one left.
\<close>

definition demo_world_module :: "(string, string, string) World" where
  "demo_world_module =
     \<lparr>app =
        [\<lparr>verb = ''get'', routePath = ''/users/:id'',
          handlers = [CallInstance (Instance 0 ''UserController'') ''findOne'']\<rparr>,
         \<lparr>verb = ''post'', routePath = ''/users/'',
          handlers = [ChainedMiddleware ''authaudit'',
                      CallInstance (Instance 0 ''UserController'') ''create'']\<rparr>],
      injectors = [[''UserController'', ''UserService'', ''Logger'']],
      moduleInstances = []\<rparr>"

definition demo_world1 :: "(string, string, string) World" where
  "demo_world1 =
     \<lparr>app =
        [\<lparr>verb = ''get'', routePath = ''/users/:id'',
          handlers = [CallInstance (Instance 0 ''UserController'') ''findOne'']\<rparr>,
         \<lparr>verb = ''post'', routePath = ''/users/'',
          handlers = [ChainedMiddleware ''authaudit'',
                      CallInstance (Instance 0 ''UserController'') ''create'']\<rparr>,
         \<lparr>verb = ''get'', routePath = ''/health'',
          handlers = [CallInstance (Instance 1 ''HealthController'') ''check'']\<rparr>],
      injectors = [[''UserController'', ''UserService'', ''Logger''],
                   [''HealthController'', ''Logger'']],
      moduleInstances = [''UserModule'']\<rparr>"

definition demo_world2 :: "(string, string, string) World" where
  "demo_world2 =
     \<lparr>app =
        [\<lparr>verb = ''get'', routePath = ''/users/:id'',
          handlers = [CallInstance (Instance 0 ''UserController'') ''findOne'']\<rparr>,
         \<lparr>verb = ''post'', routePath = ''/users/'',
          handlers = [ChainedMiddleware ''authaudit'',
                      CallInstance (Instance 0 ''UserController'') ''create'']\<rparr>,
         \<lparr>verb = ''get'', routePath = ''/health'',
          handlers = [CallInstance (Instance 1 ''HealthController'') ''check'']\<rparr>,
         \<lparr>verb = ''get'', routePath = ''/users/:id'',
          handlers = [CallInstance (Instance 2 ''UserController'') ''findOne'']\<rparr>,
         \<lparr>verb = ''post'', routePath = ''/users/'',
          handlers = [ChainedMiddleware ''authaudit'',
                      CallInstance (Instance 2 ''UserController'') ''create'']\<rparr>,
         \<lparr>verb = ''get'', routePath = ''/health'',
          handlers = [CallInstance (Instance 3 ''HealthController'') ''check'']\<rparr>],
      injectors = [[''UserController'', ''UserService'', ''Logger''],
                   [''HealthController'', ''Logger''],
                   [''UserController'', ''UserService'', ''Logger''],
                   [''HealthController'', ''Logger'']],
      moduleInstances = [''UserModule'', ''UserModule'']\<rparr>"

section \<open>Properties of the path combiner\<close>

lemma charAt_0: "charAt s 0 = (case s of [] \<Rightarrow> [] | c # cs \<Rightarrow> [c])"
  by (cases s) (simp_all add: charAt_def)

lemma combineRouterPath_strip:
  "combineRouterPath p q =
     (let joined = strip_one_leading_slash p @ ''/'' @ strip_one_leading_slash q
      in if charAt joined 0 \<noteq> ''/'' then ''/'' @ joined else joined)"
proof -
  have p: "(if p \<noteq> [] then [] @ (if charAt p 0 = ''/'' then substring p 1 else p) else [])
             = strip_one_leading_slash p"
    by (cases p) (simp_all add: charAt_0 substring_def strip_one_leading_slash_def)
  have q: "\<And>r. (if q \<noteq> [] then r @ (if charAt q 0 = ''/'' then substring q 1 else q) else r)
             = r @ strip_one_leading_slash q"
    by (cases q) (simp_all add: charAt_0 substring_def strip_one_leading_slash_def)
  show ?thesis
    unfolding combineRouterPath_def Let_def p q by simp
qed

lemma startsWith_slash: "startsWith s ''/'' = (charAt s 0 = ''/'')"
  by (cases s) (simp_all add: startsWith_def charAt_0)

text \<open>
  C2. For all strings, \<open>combineRouterPath\<close> computes what the specification describes:
  at most one leading slash stripped from each argument, the two joined by a slash, a
  slash prepended when the result does not start with one; in particular the three
  examples of the specification hold, the inner double slash included.
\<close>

theorem combineRouterPath_as_specified:
  "combineRouterPath p q = combine_as_specified p q
   \<and> combineRouterPath '''' '''' = ''/''
   \<and> combineRouterPath '''' ''x'' = ''/x''
   \<and> combineRouterPath ''/a/'' ''b'' = ''/a//b''"
proof -
  have general: "\<And>p q. combineRouterPath p q = combine_as_specified p q"
    by (simp add: combineRouterPath_strip combine_as_specified_def startsWith_slash Let_def)
  have e1: "combine_as_specified '''' '''' = ''/''"
    by (simp add: combine_as_specified_def strip_one_leading_slash_def startsWith_def)
  have e2: "combine_as_specified '''' ''x'' = ''/x''"
    by (simp add: combine_as_specified_def strip_one_leading_slash_def startsWith_def)
  have e3: "combine_as_specified ''/a/'' ''b'' = ''/a//b''"
    by (simp add: combine_as_specified_def strip_one_leading_slash_def startsWith_def)
  show ?thesis
    using e1 e2 e3 by (simp add: general)
qed

text \<open>
  C3. For every prefix and path the combined path begins with the slash, hence is not
  empty.
\<close>

theorem combineRouterPath_starts_with_slash:
  "\<exists>rest. combineRouterPath p q = CHR ''/'' # rest"
proof (cases "strip_one_leading_slash p @ ''/'' @ strip_one_leading_slash q")
  case Nil
  then show ?thesis by simp
next
  case (Cons c cs)
  then show ?thesis
    by (cases "c = CHR ''/''") (simp_all add: combineRouterPath_strip charAt_0 Let_def)
qed

text \<open>
  C9. Combining the empty prefix with a path that begins with one slash, and not with two,
  gives the path back.
\<close>

theorem combineRouterPath_empty_prefix_identity:
  assumes "startsWith p ''/''" and "\<not> startsWith p ''//''"
  shows "combineRouterPath '''' p = p"
proof (cases p)
  case Nil
  with assms(1) show ?thesis by (simp add: startsWith_def)
next
  case (Cons c cs)
  with assms(1) have "c = CHR ''/''" by (simp add: startsWith_def)
  with Cons show ?thesis
    by (simp add: combineRouterPath_strip strip_one_leading_slash_def charAt_0)
qed

theorem combineRouterPath_empty_prefix_identity_witness:
  "startsWith ''/users/:id'' ''/'' \<and> \<not> startsWith ''/users/:id'' ''//''
   \<and> combineRouterPath '''' ''/users/:id'' = ''/users/:id''"
proof -
  have h1: "startsWith ''/users/:id'' ''/''" by (simp add: startsWith_def)
  have h2: "\<not> startsWith ''/users/:id'' ''//''" by (simp add: startsWith_def)
  show ?thesis
    using h1 h2 combineRouterPath_empty_prefix_identity [OF h1 h2] by simp
qed

section \<open>Properties of getPrefix\<close>

text \<open>
  C6. \<open>getPrefix\<close> returns the path of the first entry, in list order, whose \<open>isClass\<close>
  flag is true, and the empty string when no entry has the flag, the empty list included.
\<close>

theorem getPrefix_first_class_entry:
  "(list_all (\<lambda>r. \<not> isClass r) rs \<longrightarrow> getPrefix rs = '''')
   \<and> (list_all (\<lambda>r. \<not> isClass r) before \<and> isClass r \<longrightarrow>
        getPrefix (before @ r # after) = path r)"
proof
  show "list_all (\<lambda>r. \<not> isClass r) rs \<longrightarrow> getPrefix rs = ''''"
    by (induction rs) simp_all
  show "list_all (\<lambda>r. \<not> isClass r) before \<and> isClass r \<longrightarrow>
        getPrefix (before @ r # after) = path r"
    by (induction before) simp_all
qed

theorem getPrefix_first_class_entry_witness:
  "list_all (\<lambda>r. \<not> isClass r)
     [\<lparr>isClass = False, requestMethod = ''get'', path = ''/:id'', methodName = ''find'',
       middlewares = ([] :: nat list)\<rparr>]
   \<and> getPrefix
       [\<lparr>isClass = False, requestMethod = ''get'', path = ''/:id'', methodName = ''find'',
         middlewares = ([] :: nat list)\<rparr>] = []
   \<and> list_all (\<lambda>r. \<not> isClass r)
       [\<lparr>isClass = False, requestMethod = ''get'', path = ''/:id'', methodName = ''find'',
         middlewares = ([] :: nat list)\<rparr>]
   \<and> isClass \<lparr>isClass = True, requestMethod = ''get'', path = ''/users'', methodName = [],
       middlewares = ([] :: nat list)\<rparr>
   \<and> getPrefix
       ([\<lparr>isClass = False, requestMethod = ''get'', path = ''/:id'', methodName = ''find'',
          middlewares = ([] :: nat list)\<rparr>]
        @ \<lparr>isClass = True, requestMethod = ''get'', path = ''/users'', methodName = [],
            middlewares = []\<rparr>
        # [\<lparr>isClass = True, requestMethod = ''get'', path = ''/other'', methodName = [],
            middlewares = []\<rparr>]) = ''/users''"
  using getPrefix_first_class_entry
    [of "[\<lparr>isClass = False, requestMethod = ''get'', path = ''/:id'', methodName = ''find'',
           middlewares = ([] :: nat list)\<rparr>]"
        "[\<lparr>isClass = False, requestMethod = ''get'', path = ''/:id'', methodName = ''find'',
           middlewares = ([] :: nat list)\<rparr>]"
        "\<lparr>isClass = True, requestMethod = ''get'', path = ''/users'', methodName = [],
           middlewares = ([] :: nat list)\<rparr>"
        "[\<lparr>isClass = True, requestMethod = ''get'', path = ''/other'', methodName = [],
           middlewares = ([] :: nat list)\<rparr>]"]
  by simp

section \<open>Properties of asyncHelper\<close>

text \<open>
  C1. When the promise returned by the wrapped function is fulfilled, the wrapper makes
  no call of \<open>next\<close>: the state is the one the wrapped function left. When the promise is
  rejected with the reason \<open>E\<close>, the wrapper makes one call of \<open>next\<close>, with \<open>E\<close>: the state
  is the one the wrapped function left after one application of \<open>next\<close> to \<open>E\<close>. With the
  recording continuation the calls made are those of the wrapped function, followed by
  none in the first case and by \<open>E\<close> alone in the second.
\<close>

theorem asyncHelper_calls_next:
  "(fn req res next s = (Fulfilled, s') \<longrightarrow> asyncHelper fn req res next s = s')
   \<and> (fn req res next s = (Rejected E, s') \<longrightarrow> asyncHelper fn req res next s = next E s')
   \<and> (fr req res recording_next calls = (Fulfilled, calls') \<longrightarrow>
        asyncHelper fr req res recording_next calls = calls')
   \<and> (fr req res recording_next calls = (Rejected E, calls') \<longrightarrow>
        asyncHelper fr req res recording_next calls = calls' @ [E])"
  by (simp add: asyncHelper_def promise_catch_def recording_next_def)

theorem asyncHelper_calls_next_witness:
  "(\<lambda>req res next s. (Fulfilled, s)) (1::nat) (2::nat) recording_next [] = (Fulfilled, [])
   \<and> asyncHelper (\<lambda>req res next s. (Fulfilled, s)) (1::nat) (2::nat) recording_next []
       = ([] :: string list)
   \<and> (\<lambda>req res next s. (Rejected ''boom'', s)) (1::nat) (2::nat) recording_next []
       = (Rejected ''boom'', [])
   \<and> asyncHelper (\<lambda>req res next s. (Rejected ''boom'', s)) (1::nat) (2::nat) recording_next []
       = [''boom'']"
  using asyncHelper_calls_next
    [of "\<lambda>req res next s. (Fulfilled, s)" "1::nat" "2::nat" recording_next "[] :: string list"
        "[]" "''boom''" "\<lambda>req res next s. (Fulfilled, s)" "[]" "[]"]
    asyncHelper_calls_next
    [of "\<lambda>req res next s. (Rejected ''boom'', s)" "1::nat" "2::nat" recording_next
        "[] :: string list" "[]" "''boom''" "\<lambda>req res next s. (Rejected ''boom'', s)"
        "[]" "[]"]
  by (simp add: recording_next_def)

section \<open>Properties of addRouterToExpress\<close>

lemma addRouterToExpress_forEach_registrations:
  "addRouterToExpress_forEach cm pre inst rs a =
     a @ map (registration_of cm pre inst) (filter (\<lambda>r. \<not> isClass r) rs)"
  by (induction rs arbitrary: a)
     (simp_all add: app_method_def registration_of_def callInstance_def Let_def)

lemma addRouterToExpress_registrations:
  "addRouterToExpress cm a rs inst =
     a @ map (registration_of cm (getPrefix rs) inst) (filter (\<lambda>r. \<not> isClass r) rs)"
  by (simp add: addRouterToExpress_def addRouterToExpress_forEach_registrations)

lemma getPrefix_no_class: "list_all (\<lambda>r. \<not> isClass r) rs \<Longrightarrow> getPrefix rs = []"
  by (induction rs) simp_all

lemma combineRouterPath_empty_prefix:
  "combineRouterPath [] q = ''/'' @ strip_one_leading_slash q"
  by (simp add: combineRouterPath_strip strip_one_leading_slash_def charAt_0)

text \<open>
  C4. For every list of combined routes and every controller instance, the registrar
  appends to the routing table one registration for each entry whose \<open>isClass\<close> flag is
  false, in list order, and none for an entry whose flag is true. The registration is
  under the verb of the entry, at the path combined from the prefix of the list and the
  path of the entry; its handlers are the chained middleware followed by the instance
  handler when the entry has a middleware, and the instance handler alone when it has
  none.
\<close>

theorem addRouterToExpress_registers_routes:
  "addRouterToExpress cm a rs inst =
     a @ map (\<lambda>r. \<lparr>verb = requestMethod r,
                   routePath = combineRouterPath (getPrefix rs) (path r),
                   handlers =
                     (if middlewares r = [] then [callInstance inst r]
                      else [ChainedMiddleware (cm (middlewares r)), callInstance inst r])\<rparr>)
           (filter (\<lambda>r. \<not> isClass r) rs)"
  by (simp add: addRouterToExpress_registrations registration_of_def callInstance_def
        cong: map_cong)
lemma addRouterToExpress_append:
  "addRouterToExpress cm a rs inst = a @ addRouterToExpress cm [] rs inst"
  by (simp add: addRouterToExpress_registrations)

lemma addRouterToExpress_no_class:
  assumes "list_all (\<lambda>r. \<not> isClass r) rs"
  shows "addRouterToExpress cm a rs inst =
          a @ map (\<lambda>r. \<lparr>verb = requestMethod r,
                        routePath = ''/'' @ strip_one_leading_slash (path r),
                        handlers =
                          (if middlewares r = [] then [callInstance inst r]
                           else [ChainedMiddleware (cm (middlewares r)),
                                 callInstance inst r])\<rparr>) rs"
proof -
  from assms have all: "filter (\<lambda>r. \<not> isClass r) rs = rs"
    by (simp add: list_all_iff)
  show ?thesis
    by (simp add: addRouterToExpress_registrations all getPrefix_no_class [OF assms]
          registration_of_def callInstance_def combineRouterPath_empty_prefix
          cong: map_cong)
qed

section \<open>Properties of addModuleToExpressApp\<close>

lemma or_empty_simps: "or_empty None = []" "or_empty (Some xs) = xs"
  by (simp_all add: or_empty_def)

lemma controller_registrations_pair:
  "controller_registrations E (n, c) =
     addRouterToExpress (combineMiddlewares E) []
       (combineRouteWithMiddleware E c (store_routes E) (store_middlewares E)) (Instance n c)"
  by (simp add: controller_registrations_def)

text \<open>
  The loop over the controllers either fails with a resolution error or appends the
  registrations of each controller and one injector for each.
\<close>

lemma forEach_controllers:
  "addModuleToExpressApp_forEach E ps gs cs w =
     (if list_all (controller_resolves E ps gs) cs
      then Inr (w\<lparr>app := app w @ concat (map (controller_registrations E)
                                          (enumerate (length (injectors w)) cs)),
                  injectors := injectors w @ map (\<lambda>c. c # ps @ gs) cs\<rparr>)
      else Inl ResolutionError)"
proof (induction cs arbitrary: w)
  case Nil
  show ?case by simp
next
  case (Cons c cs)
  show ?case
  proof (cases "controller_resolves E ps gs c")
    case False
    then show ?thesis
      by (auto simp add: controller_resolves_def resolveAndCreate_def injector_get_def)
  next
    case True
    then show ?thesis
      using addRouterToExpress_append [of "combineMiddlewares E" "app w"]
      by (simp add: controller_resolves_def resolveAndCreate_def injector_get_def Cons.IH
            controller_registrations_pair Let_def)
  qed
qed

lemma foldl_addRouterToExpress:
  "foldl (\<lambda>a (n, c). addRouterToExpress (combineMiddlewares E) a
            (combineRouteWithMiddleware E c (store_routes E) (store_middlewares E))
            (Instance n c)) a ncs
   = a @ concat (map (controller_registrations E) ncs)"
proof (induction ncs arbitrary: a)
  case Nil
  show ?case by simp
next
  case (Cons nc ncs)
  obtain n c where nc: "nc = (n, c)" by (cases nc)
  show ?case
    using addRouterToExpress_append [of "combineMiddlewares E" a]
    by (simp add: nc Cons.IH controller_registrations_pair)
qed

lemma nth_injectors:
  "list_all (\<lambda>(n, c). n < length (xs @ map f cs) \<and> (xs @ map f cs) ! n = f c)
     (enumerate (length xs) cs)"
  by (auto simp add: list_all_iff in_set_enumerate_eq nth_append)

lemma addModuleToExpressApp_metadata:
  "getMetadata E m = Some md \<Longrightarrow>
   addModuleToExpressApp E (getMetadata E m) option w =
     addModuleToExpressApp_forEach E (module_providers E m) (globalProviders option)
       (module_controllers E m) w"
  by (simp add: addModuleToExpressApp_def module_providers_def module_controllers_def
        globalProviders_def)

section \<open>Properties of useExpressServer\<close>

lemma forEach_modules_throws:
  "\<not> list_all (module_resolves E option) ms \<Longrightarrow>
   \<exists>e. useExpressServer_forEach E option ms w = Inl e"
proof (induction ms arbitrary: w)
  case Nil
  then show ?case by simp
next
  case (Cons m ms)
  show ?case
  proof (cases "module_resolves E option m")
    case True
    then obtain md where md: "getMetadata E m = Some md"
      by (auto simp add: module_resolves_def)
    from True Cons.prems have rest: "\<not> list_all (module_resolves E option) ms" by simp
    from True md show ?thesis
      using Cons.IH [OF rest] addModuleToExpressApp_metadata [OF md]
      by (simp add: module_resolves_def createModuleInstance_def forEach_controllers)
  next
    case False
    show ?thesis
    proof (cases "constructorThrows E m")
      case True
      then show ?thesis by (simp add: createModuleInstance_def)
    next
      case no_throw: False
      show ?thesis
      proof (cases "getMetadata E m")
        case None
        with no_throw show ?thesis
          by (simp add: createModuleInstance_def addModuleToExpressApp_def)
      next
        case (Some md)
        with no_throw False show ?thesis
          using addModuleToExpressApp_metadata [OF Some]
          by (simp add: module_resolves_def createModuleInstance_def forEach_controllers)
      qed
    qed
  qed
qed

lemma forEach_modules:
  "list_all (module_resolves E option) ms \<Longrightarrow>
   useExpressServer_forEach E option ms w =
     Inr (w\<lparr>app := app w @ concat (map (controller_registrations E)
                (enumerate (length (injectors w)) (concat (map (module_controllers E) ms)))),
            injectors := injectors w @ concat (map (module_seeds E (globalProviders option)) ms),
            moduleInstances := moduleInstances w @ ms\<rparr>)"
proof (induction ms arbitrary: w)
  case Nil
  show ?case by simp
next
  case (Cons m ms)
  then have m: "module_resolves E option m"
    and ms: "list_all (module_resolves E option) ms" by simp_all
  from m obtain md where md: "getMetadata E m = Some md"
    by (auto simp add: module_resolves_def)
  from m md show ?case
    using addModuleToExpressApp_metadata [OF md]
    by (simp add: module_resolves_def createModuleInstance_def forEach_controllers
          Cons.IH [OF ms] module_seeds_def enumerate_append_eq)
qed

lemma length_module_seeds:
  "length (concat (map (module_seeds E gs) ms)) = length (concat (map (module_controllers E) ms))"
  by (induction ms) (simp_all add: module_seeds_def)

lemma useExpressServer_completes:
  assumes "no_step_throws E option"
  shows "useExpressServer E option w =
     Inr (True,
          w\<lparr>app := app w @ concat (map (controller_registrations E)
                 (enumerate (length (injectors w)) (server_controllers E option))),
            injectors := injectors w
              @ concat (map (module_seeds E (globalProviders option))
                  (or_empty (optional opt_imports option)))
              @ map (\<lambda>c. c # globalProviders option) (or_empty (optional opt_controllers option)),
            moduleInstances := moduleInstances w @ or_empty (optional opt_imports option)\<rparr>)"
proof -
  from assms have ms: "list_all (module_resolves E option) (or_empty (optional opt_imports option))"
    and cs: "list_all (controller_resolves E [] (globalProviders option))
               (or_empty (optional opt_controllers option))"
    by (simp_all add: no_step_throws_def)
  show ?thesis
    using cs
    by (cases "or_empty (optional opt_controllers option)")
       (simp_all add: useExpressServer_def forEach_modules [OF ms] addModuleToExpressApp_def
          forEach_controllers or_empty_simps globalProviders_def [symmetric]
          server_controllers_def enumerate_append_eq length_module_seeds Let_def)
qed

lemma useExpressServer_throws:
  assumes "\<not> no_step_throws E option"
  shows "\<exists>e. useExpressServer E option w = Inl e"
proof (cases "list_all (module_resolves E option) (or_empty (optional opt_imports option))")
  case False
  then obtain e where
    "useExpressServer_forEach E option (or_empty (optional opt_imports option)) w = Inl e"
    using forEach_modules_throws by blast
  then show ?thesis by (simp add: useExpressServer_def)
next
  case True
  with assms have cs: "\<not> list_all (controller_resolves E [] (globalProviders option))
               (or_empty (optional opt_controllers option))"
    by (simp add: no_step_throws_def)
  then have ne: "or_empty (optional opt_controllers option) \<noteq> []" by auto
  from cs ne show ?thesis
    by (simp add: useExpressServer_def forEach_modules [OF True] addModuleToExpressApp_def
          forEach_controllers or_empty_simps globalProviders_def [symmetric] Let_def)
qed

lemma route_key_controller:
  "map route_key (controller_registrations E (n, c)) = controller_keys E c"
  by (simp add: controller_registrations_pair addRouterToExpress_registrations
        registration_of_def route_key_def controller_keys_def Let_def)

lemma route_key_controllers:
  "map route_key (concat (map (controller_registrations E) (enumerate n cs)))
     = concat (map (controller_keys E) cs)"
proof (induction cs arbitrary: n)
  case Nil
  show ?case by simp
next
  case (Cons c cs)
  show ?case
    using route_key_controller [of E n c] Cons.IH [of "Suc n"] by simp
qed

section \<open>The example, evaluated\<close>

lemmas demo_defs =
  demo_imported_def demo_option_def demo_world_def demo_world1_def demo_routes_def
  useExpressServer_def addModuleToExpressApp_def createModuleInstance_def
  resolveAndCreate_def injector_get_def addRouterToExpress_def app_method_def
  callInstance_def combineRouterPath_def charAt_def substring_def or_empty_def optional_def

lemma demo_first_run:
  "useExpressServer demo_imported demo_option demo_world = Inr (True, demo_world1)"
  by (simp add: demo_defs)

lemma demo_second_run:
  "useExpressServer demo_imported demo_option demo_world1 = Inr (True, demo_world2)"
  by (simp add: demo_defs demo_world2_def)

lemma demo_module_run:
  "addModuleToExpressApp demo_imported (Some demo_module) demo_option demo_world
     = Inr demo_world_module"
  by (simp add: demo_defs demo_module_def demo_world_module_def)

lemma demo_modules_forEach:
  "useExpressServer_forEach demo_imported demo_option [''UserModule''] demo_world
     = Inr (demo_world_module\<lparr>moduleInstances := [''UserModule'']\<rparr>)"
  by (simp add: demo_defs demo_world_module_def)

lemma demo_no_step_throws: "no_step_throws demo_imported demo_option"
  by (simp add: no_step_throws_def module_resolves_def controller_resolves_def
        module_controllers_def module_providers_def globalProviders_def demo_imported_def
        demo_option_def or_empty_def optional_def)

lemma demo_registered_keys:
  "registered_keys demo_imported demo_option =
     [(''get'', ''/users/:id''), (''post'', ''/users/''), (''get'', ''/health'')]"
  by (simp add: registered_keys_def server_controllers_def module_controllers_def
        controller_keys_def demo_imported_def demo_option_def demo_routes_def
        or_empty_def optional_def combineRouterPath_def charAt_def substring_def)

section \<open>Injectors\<close>

text \<open>
  C5. For every controller registered, a new injector is created with exactly the list of
  the controller, the providers of the module and the global providers, in this order,
  and the instance given to the registrar is fetched from that injector: a run of
  \<open>addModuleToExpressApp\<close> that completes appends one injector for each controller, the
  controller at position \<open>i\<close> is registered with the instance held by the injector at
  position \<open>i\<close> among the new ones, and the providers of that injector are that list. No
  injector serves two controllers. The controllers of the option \<open>controllers\<close> get the
  list of the controller and the global providers, without providers of a module.
\<close>

theorem controllers_get_own_injector:
  "(addModuleToExpressApp E (Some md) option w = Inr w' \<longrightarrow>
      injectors w' =
        injectors w
        @ map (\<lambda>c. [c] @ or_empty (mod_providers md) @ or_empty (optional opt_providers option))
            (or_empty (mod_controllers md))
      \<and> list_all
          (\<lambda>(n, c). n < length (injectors w') \<and> injectors w' ! n =
             [c] @ or_empty (mod_providers md) @ or_empty (optional opt_providers option))
          (enumerate (length (injectors w)) (or_empty (mod_controllers md)))
      \<and> app w' =
          foldl (\<lambda>a (n, c). addRouterToExpress (combineMiddlewares E) a
                   (combineRouteWithMiddleware E c (store_routes E) (store_middlewares E))
                   (Instance n c))
            (app w) (enumerate (length (injectors w)) (or_empty (mod_controllers md))))
   \<and> (useExpressServer E option w = Inr (b, w'') \<longrightarrow>
        (\<exists>w1. useExpressServer_forEach E option (or_empty (optional opt_imports option)) w = Inr w1
           \<and> injectors w'' =
               injectors w1
               @ map (\<lambda>c. [c] @ or_empty (optional opt_providers option))
                   (or_empty (optional opt_controllers option))))"
proof (intro conjI impI)
  assume run: "addModuleToExpressApp E (Some md) option w = Inr w'"
  let ?ps = "or_empty (mod_providers md)"
  let ?gs = "or_empty (optional opt_providers option)"
  let ?cs = "or_empty (mod_controllers md)"
  from run have w': "w' = w\<lparr>app := app w @ concat (map (controller_registrations E)
                                          (enumerate (length (injectors w)) ?cs)),
                  injectors := injectors w @ map (\<lambda>c. c # ?ps @ ?gs) ?cs\<rparr>"
    by (simp add: addModuleToExpressApp_def forEach_controllers Let_def split: if_splits)
  show seeds: "injectors w' = injectors w @ map (\<lambda>c. [c] @ ?ps @ ?gs) ?cs"
    by (simp add: w')
  show "list_all (\<lambda>(n, c). n < length (injectors w') \<and> injectors w' ! n = [c] @ ?ps @ ?gs)
          (enumerate (length (injectors w)) ?cs)"
    unfolding seeds by (rule nth_injectors)
  show "app w' =
          foldl (\<lambda>a (n, c). addRouterToExpress (combineMiddlewares E) a
                   (combineRouteWithMiddleware E c (store_routes E) (store_middlewares E))
                   (Instance n c))
            (app w) (enumerate (length (injectors w)) ?cs)"
    by (simp add: w' foldl_addRouterToExpress)
next
  assume run: "useExpressServer E option w = Inr (b, w'')"
  let ?gs = "or_empty (optional opt_providers option)"
  let ?cs = "or_empty (optional opt_controllers option)"
  from run obtain w1 where
    w1: "useExpressServer_forEach E option (or_empty (optional opt_imports option)) w = Inr w1"
    by (auto simp add: useExpressServer_def Let_def split: sum.splits)
  have "injectors w'' = injectors w1 @ map (\<lambda>c. [c] @ ?gs) ?cs"
  proof (cases "?cs = []")
    case True
    with run w1 show ?thesis by (simp add: useExpressServer_def)
  next
    case False
    with run w1 show ?thesis
      by (auto simp add: useExpressServer_def addModuleToExpressApp_def forEach_controllers
            or_empty_simps Let_def split: sum.splits if_splits)
  qed
  with w1 show "\<exists>w1. useExpressServer_forEach E option (or_empty (optional opt_imports option)) w
                      = Inr w1
           \<and> injectors w'' = injectors w1 @ map (\<lambda>c. [c] @ ?gs) ?cs"
    by blast
qed

theorem controllers_get_own_injector_witness:
  "addModuleToExpressApp demo_imported (Some demo_module) demo_option demo_world
     = Inr demo_world_module
   \<and> injectors demo_world_module = [[''UserController'', ''UserService'', ''Logger'']]
   \<and> injectors demo_world_module ! 0 = [''UserController'', ''UserService'', ''Logger'']
   \<and> app demo_world_module =
       addRouterToExpress (combineMiddlewares demo_imported) [] (demo_routes ''UserController'')
         (Instance 0 ''UserController'')
   \<and> useExpressServer demo_imported demo_option demo_world = Inr (True, demo_world1)
   \<and> useExpressServer_forEach demo_imported demo_option [''UserModule''] demo_world
       = Inr (demo_world_module\<lparr>moduleInstances := [''UserModule'']\<rparr>)
   \<and> injectors demo_world1 =
       injectors (demo_world_module\<lparr>moduleInstances := [''UserModule'']\<rparr>)
       @ [[''HealthController'', ''Logger'']]"
  using controllers_get_own_injector
          [of demo_imported demo_module demo_option demo_world demo_world_module
              True demo_world1]
        demo_module_run demo_first_run demo_modules_forEach
  by (simp add: demo_module_def demo_option_def demo_world_def demo_imported_def
        or_empty_def optional_def)

section \<open>Running the entry point twice\<close>

text \<open>
  C7. The entry point is not idempotent. A run that completes appends to the routing table
  the registrations of every controller of the run, so the verbs and paths appended are
  those that the routes declare. A second run with the same options on the state the
  first one left completes too and appends the registrations of every controller again,
  bound to new instances: the routing table then holds the declared verbs and paths
  twice, each verb and path twice as often as the routes declare it. Nothing is merged
  and no error is raised.
\<close>

theorem useExpressServer_twice:
  "useExpressServer E option w = Inr (b, w1) \<longrightarrow>
     app w1 =
       app w @ concat (map (controller_registrations E)
                  (enumerate (length (injectors w)) (server_controllers E option)))
     \<and> map route_key (app w1) = map route_key (app w) @ registered_keys E option
     \<and> (\<exists>w2. useExpressServer E option w1 = Inr (True, w2)
           \<and> app w2 =
               app w1 @ concat (map (controller_registrations E)
                          (enumerate (length (injectors w1)) (server_controllers E option)))
           \<and> map route_key (app w2) =
               map route_key (app w) @ registered_keys E option @ registered_keys E option
           \<and> length (app w2) = length (app w) + 2 * length (registered_keys E option)
           \<and> (\<forall>k. count_list (map route_key (app w2)) k =
                    count_list (map route_key (app w)) k
                    + 2 * count_list (registered_keys E option) k))"
proof
  assume run: "useExpressServer E option w = Inr (b, w1)"
  have ok: "no_step_throws E option"
  proof (rule ccontr)
    assume "\<not> no_step_throws E option"
    from useExpressServer_throws [OF this, of w] run show False by auto
  qed
  let ?regs = "\<lambda>n. concat (map (controller_registrations E)
                 (enumerate n (server_controllers E option)))"
  have keys: "\<And>n. map route_key (?regs n) = registered_keys E option"
    by (simp add: route_key_controllers registered_keys_def)
  from run have w1: "app w1 = app w @ ?regs (length (injectors w))"
    by (auto simp add: useExpressServer_completes [OF ok])
  have keys1: "map route_key (app w1) = map route_key (app w) @ registered_keys E option"
    using keys [of "length (injectors w)"] by (simp add: w1)
  obtain w2 where run2: "useExpressServer E option w1 = Inr (True, w2)"
    by (simp add: useExpressServer_completes [OF ok])
  then have w2: "app w2 = app w1 @ ?regs (length (injectors w1))"
    by (auto simp add: useExpressServer_completes [OF ok])
  have keys2: "map route_key (app w2) =
                 map route_key (app w) @ registered_keys E option @ registered_keys E option"
    using keys [of "length (injectors w1)"] by (simp add: w2 keys1)
  have len: "length (app w2) = length (app w) + 2 * length (registered_keys E option)"
  proof -
    have "length (map route_key (app w2)) =
            length (map route_key (app w) @ registered_keys E option @ registered_keys E option)"
      by (simp only: keys2)
    then show ?thesis by simp
  qed
  have cnt: "\<forall>k. count_list (map route_key (app w2)) k =
                    count_list (map route_key (app w)) k
                    + 2 * count_list (registered_keys E option) k"
    by (simp add: keys2)
  from w1 keys1 run2 w2 keys2 len cnt
  show "app w1 = app w @ ?regs (length (injectors w))
     \<and> map route_key (app w1) = map route_key (app w) @ registered_keys E option
     \<and> (\<exists>w2. useExpressServer E option w1 = Inr (True, w2)
           \<and> app w2 = app w1 @ ?regs (length (injectors w1))
           \<and> map route_key (app w2) =
               map route_key (app w) @ registered_keys E option @ registered_keys E option
           \<and> length (app w2) = length (app w) + 2 * length (registered_keys E option)
           \<and> (\<forall>k. count_list (map route_key (app w2)) k =
                    count_list (map route_key (app w)) k
                    + 2 * count_list (registered_keys E option) k))"
    by blast
qed

theorem useExpressServer_twice_witness:
  "useExpressServer demo_imported demo_option demo_world = Inr (True, demo_world1)
   \<and> useExpressServer demo_imported demo_option demo_world1 = Inr (True, demo_world2)
   \<and> registered_keys demo_imported demo_option =
       [(''get'', ''/users/:id''), (''post'', ''/users/''), (''get'', ''/health'')]
   \<and> map route_key (app demo_world1) =
       [(''get'', ''/users/:id''), (''post'', ''/users/''), (''get'', ''/health'')]
   \<and> map route_key (app demo_world2) =
       [(''get'', ''/users/:id''), (''post'', ''/users/''), (''get'', ''/health''),
        (''get'', ''/users/:id''), (''post'', ''/users/''), (''get'', ''/health'')]
   \<and> count_list (map route_key (app demo_world2)) (''get'', ''/users/:id'') = 2
   \<and> app demo_world2 \<noteq> app demo_world1"
proof -
  have run1: "useExpressServer demo_imported demo_option demo_world = Inr (True, demo_world1)"
    by (rule demo_first_run)
  have empty: "map route_key (app demo_world) = []" by (simp add: demo_world_def)
  note twice = useExpressServer_twice
    [of demo_imported demo_option demo_world True demo_world1, THEN mp, OF run1]
  from twice have k1: "map route_key (app demo_world1) =
       map route_key (app demo_world) @ registered_keys demo_imported demo_option"
    by blast
  from twice obtain w2 where
    run2: "useExpressServer demo_imported demo_option demo_world1 = Inr (True, w2)"
    and k2: "map route_key (app w2) =
       map route_key (app demo_world) @ registered_keys demo_imported demo_option
       @ registered_keys demo_imported demo_option"
    and c2: "\<forall>k. count_list (map route_key (app w2)) k =
                count_list (map route_key (app demo_world)) k
                + 2 * count_list (registered_keys demo_imported demo_option) k"
    by blast
  from run2 demo_second_run have w2: "w2 = demo_world2" by simp
  have ne: "app demo_world2 \<noteq> app demo_world1"
    by (simp add: demo_world1_def demo_world2_def)
  from c2 have c2': "count_list (map route_key (app demo_world2)) (''get'', ''/users/:id'') =
      count_list (map route_key (app demo_world)) (''get'', ''/users/:id'')
      + 2 * count_list (registered_keys demo_imported demo_option) (''get'', ''/users/:id'')"
    unfolding w2 by blast
  show ?thesis
    using run1 demo_second_run k1 k2 c2' ne
    by (simp add: w2 empty demo_registered_keys)
qed

section \<open>The value returned\<close>

text \<open>
  C8. Whenever \<open>useExpressServer\<close> runs to completion it returns \<open>true\<close>, for every state of
  the application and every option, the omitted option included: when no step throws the
  run completes with \<open>true\<close>, every run that completes has returned \<open>true\<close>, and with the
  option omitted the run completes with \<open>true\<close> and changes nothing.
\<close>

theorem useExpressServer_returns_true:
  "(no_step_throws E option \<longrightarrow> (\<exists>w'. useExpressServer E option w = Inr (True, w')))
   \<and> (useExpressServer E option w = Inr (b, w') \<longrightarrow> b = True)
   \<and> useExpressServer E None w = Inr (True, w)"
proof (intro conjI impI)
  assume "no_step_throws E option"
  then show "\<exists>w'. useExpressServer E option w = Inr (True, w')"
    by (simp add: useExpressServer_completes)
next
  assume "useExpressServer E option w = Inr (b, w')"
  then show "b = True"
    by (auto simp add: useExpressServer_def Let_def split: sum.splits if_splits)
next
  show "useExpressServer E None w = Inr (True, w)"
    by (simp add: useExpressServer_def or_empty_def optional_def)
qed

theorem useExpressServer_returns_true_witness:
  "no_step_throws demo_imported demo_option
   \<and> (\<exists>w'. useExpressServer demo_imported demo_option demo_world = Inr (True, w'))
   \<and> useExpressServer demo_imported demo_option demo_world = Inr (True, demo_world1)
   \<and> useExpressServer demo_imported None demo_world = Inr (True, demo_world)"
  using useExpressServer_returns_true
          [of demo_imported demo_option demo_world True demo_world1]
        demo_no_step_throws demo_first_run
  by simp

section \<open>Routes without a class entry\<close>

text \<open>
  C10. When the list of combined routes of a controller has no entry whose \<open>isClass\<close> flag
  is true, registration raises no error: the prefix is the empty string and every route
  of the list is registered at the slash followed by its own path with at most one
  leading slash stripped. The registration of a controller that resolves and has such a
  list completes with these registrations.
\<close>

theorem registration_without_class_entry:
  "(list_all (\<lambda>r. \<not> isClass r) rs \<longrightarrow>
      getPrefix rs = []
      \<and> addRouterToExpress cm a rs inst =
          a @ map (\<lambda>r. \<lparr>verb = requestMethod r,
                        routePath = ''/'' @ strip_one_leading_slash (path r),
                        handlers =
                          (if middlewares r = [] then [callInstance inst r]
                           else [ChainedMiddleware (cm (middlewares r)),
                                 callInstance inst r])\<rparr>) rs)
   \<and> (list_all (\<lambda>r. \<not> isClass r)
         (combineRouteWithMiddleware E c (store_routes E) (store_middlewares E))
       \<and> controller_resolves E ps gs c \<longrightarrow>
         (\<exists>w'. addModuleToExpressApp_forEach E ps gs [c] w = Inr w'
            \<and> app w' =
                app w
                @ map (\<lambda>r. \<lparr>verb = requestMethod r,
                            routePath = ''/'' @ strip_one_leading_slash (path r),
                            handlers =
                              (if middlewares r = []
                               then [callInstance (Instance (length (injectors w)) c) r]
                               else [ChainedMiddleware (combineMiddlewares E (middlewares r)),
                                     callInstance (Instance (length (injectors w)) c) r])\<rparr>)
                    (combineRouteWithMiddleware E c (store_routes E) (store_middlewares E))))"
  by (auto simp add: getPrefix_no_class addRouterToExpress_no_class forEach_controllers
        controller_registrations_pair)

theorem registration_without_class_entry_witness:
  "list_all (\<lambda>r. \<not> isClass r) (demo_routes ''HealthController'')
   \<and> getPrefix (demo_routes ''HealthController'') = []
   \<and> addRouterToExpress concat [] (demo_routes ''HealthController'')
       (Instance 0 ''HealthController'')
       = [\<lparr>verb = ''get'', routePath = ''/health'',
           handlers = [CallInstance (Instance (0::nat) ''HealthController'') ''check'']\<rparr>]
   \<and> controller_resolves demo_imported [] [''Logger''] ''HealthController''
   \<and> (\<exists>w'. addModuleToExpressApp_forEach demo_imported [] [''Logger''] [''HealthController'']
               demo_world = Inr w'
          \<and> app w' =
              [\<lparr>verb = ''get'', routePath = ''/health'',
                handlers = [CallInstance (Instance 0 ''HealthController'') ''check'']\<rparr>])"
  using registration_without_class_entry
          [of "demo_routes ''HealthController''" concat "[]" "Instance (0::nat) ''HealthController''"
              demo_imported "''HealthController''" "[]" "[''Logger'']" demo_world]
  by (simp add: demo_routes_def demo_imported_def demo_world_def controller_resolves_def
        strip_one_leading_slash_def callInstance_def)

end
